theory Spec2Isabelle
  imports Complex_Main "HOL-Library.AList" "HOL-Library.Multiset"
begin

section \<open>JavaScript values\<close>

text \<open>
  The tracker keeps its data as plain JSON-like objects whose fields hold primitives:
  numbers, strings (text inputs hand over strings), \<open>null\<close>, or nothing at all
  (\<open>undefined\<close>).  A number is either finite or one of \<open>NaN\<close>, \<open>Infinity\<close>,
  \<open>-Infinity\<close>.  Finite numbers are modelled as exact rationals: the binary rounding and
  the overflow of IEEE doubles are not part of the model, and \<open>-0\<close> is \<open>0\<close>.
\<close>

datatype jsnum = Fin rat | NaN | PInf | NInf

datatype jsval = Undefined | Null | Bool bool | Num jsnum | Str string

subsection \<open>\<open>Number(v)\<close>: coercion to a number\<close>

text \<open>
  \<open>Number\<close> on a string follows the StringNumericLiteral grammar of ECMAScript: surrounding
  white space is dropped, the empty string is \<open>0\<close>, then come \<open>0x\<close>/\<open>0o\<close>/\<open>0b\<close> integers (unsigned),
  and signed decimals with optional fraction and exponent, or \<open>Infinity\<close>; everything else is
  \<open>NaN\<close>.  White space is the ASCII part of the grammar's white space (strings are byte
  lists here).
\<close>

definition is_ws :: "char \<Rightarrow> bool" where
  "is_ws c = (of_char c \<in> {9, 10, 11, 12, 13, 32 :: nat})"

definition is_digit :: "char \<Rightarrow> bool" where
  "is_digit c = (48 \<le> (of_char c :: nat) \<and> (of_char c :: nat) \<le> 57)"

definition digit_val :: "char \<Rightarrow> nat" where
  "digit_val c =
     (let n = of_char c :: nat in
      if 48 \<le> n \<and> n \<le> 57 then n - 48
      else if 97 \<le> n \<and> n \<le> 102 then n - 87
      else if 65 \<le> n \<and> n \<le> 70 then n - 55
      else 0)"

definition is_digit_base :: "nat \<Rightarrow> char \<Rightarrow> bool" where
  "is_digit_base b c =
     (let n = of_char c :: nat in
      ((48 \<le> n \<and> n \<le> 57) \<or> (97 \<le> n \<and> n \<le> 102) \<or> (65 \<le> n \<and> n \<le> 70)) \<and> digit_val c < b)"

definition digits_val :: "nat \<Rightarrow> string \<Rightarrow> nat" where
  "digits_val b s = foldl (\<lambda>a c. a * b + digit_val c) 0 s"

definition trim :: "string \<Rightarrow> string" where
  "trim s = rev (dropWhile is_ws (rev (dropWhile is_ws s)))"

definition parse_nondecimal :: "string \<Rightarrow> nat option" where
  "parse_nondecimal s =
     (case s of
        z # x # ds \<Rightarrow>
          (let b = (if x = CHR ''x'' \<or> x = CHR ''X'' then 16
                    else if x = CHR ''o'' \<or> x = CHR ''O'' then 8
                    else if x = CHR ''b'' \<or> x = CHR ''B'' then 2 else 0 :: nat)
           in if z = CHR ''0'' \<and> b \<noteq> 0 \<and> ds \<noteq> [] \<and> list_all (is_digit_base b) ds
              then Some (digits_val b ds) else None)
      | _ \<Rightarrow> None)"

definition parse_digits :: "string \<Rightarrow> nat option" where
  "parse_digits s = (if s \<noteq> [] \<and> list_all is_digit s then Some (digits_val 10 s) else None)"

definition parse_exponent :: "string \<Rightarrow> int option" where
  "parse_exponent s =
     (case s of
        [] \<Rightarrow> Some 0
      | c # r \<Rightarrow>
          if c = CHR ''e'' \<or> c = CHR ''E'' then
            (case r of
               [] \<Rightarrow> None
             | sg # ds \<Rightarrow>
                 if sg = CHR ''-'' then map_option (\<lambda>n. - int n) (parse_digits ds)
                 else if sg = CHR ''+'' then map_option int (parse_digits ds)
                 else map_option int (parse_digits r))
          else None)"

definition parse_decimal :: "string \<Rightarrow> rat option" where
  "parse_decimal s =
     (let ip = takeWhile is_digit s; r1 = dropWhile is_digit s in
      case r1 of
        [] \<Rightarrow> if ip = [] then None else Some (of_nat (digits_val 10 ip))
      | c # r \<Rightarrow>
          if c = CHR ''.'' then
            (let fp = takeWhile is_digit r; r2 = dropWhile is_digit r in
             if ip = [] \<and> fp = [] then None
             else map_option
                    (\<lambda>e. (of_nat (digits_val 10 ip) + of_nat (digits_val 10 fp) / 10 ^ length fp)
                          * power_int 10 e)
                    (parse_exponent r2))
          else if ip = [] then None
          else map_option (\<lambda>e. of_nat (digits_val 10 ip) * power_int 10 e) (parse_exponent r1))"

definition parse_unsigned :: "string \<Rightarrow> jsnum" where
  "parse_unsigned s =
     (if s = ''Infinity'' then PInf
      else case parse_decimal s of Some q \<Rightarrow> Fin q | None \<Rightarrow> NaN)"

fun negate :: "jsnum \<Rightarrow> jsnum" where
  "negate (Fin q) = Fin (- q)"
| "negate NaN = NaN"
| "negate PInf = NInf"
| "negate NInf = PInf"

definition str_to_number :: "string \<Rightarrow> jsnum" where
  "str_to_number s =
     (let t = trim s in
      case t of
        [] \<Rightarrow> Fin 0
      | c # r \<Rightarrow>
          (case parse_nondecimal t of
             Some n \<Rightarrow> Fin (of_nat n)
           | None \<Rightarrow>
               if c = CHR ''-'' then negate (parse_unsigned r)
               else if c = CHR ''+'' then parse_unsigned r
               else parse_unsigned t))"

fun Number :: "jsval \<Rightarrow> jsnum" where
  "Number Undefined = NaN"
| "Number Null = Fin 0"
| "Number (Bool b) = Fin (if b then 1 else 0)"
| "Number (Num n) = n"
| "Number (Str s) = str_to_number s"


subsection \<open>Numeric helpers of the tracker\<close>

text \<open>\<open>Math.round\<close> rounds to the nearest integer, a tie going up.\<close>

definition Math_round :: "rat \<Rightarrow> rat" where
  "Math_round x = of_int \<lfloor>x + 1 / 2\<rfloor>"

definition num :: "jsval \<Rightarrow> rat" where
  "num v = (case Number v of Fin q \<Rightarrow> q | _ \<Rightarrow> 0)"

definition round1 :: "jsval \<Rightarrow> rat" where
  "round1 n = (case Number n of Fin x \<Rightarrow> Math_round (x * 10) / 10 | _ \<Rightarrow> 0)"

definition clamp :: "jsval \<Rightarrow> rat \<Rightarrow> rat \<Rightarrow> rat" where
  "clamp v lo hi = (case Number v of Fin n \<Rightarrow> min hi (max lo n) | _ \<Rightarrow> lo)"

section \<open>Food items and the normalizer\<close>

text \<open>
  A food item is an object; a field that is not there reads as \<open>undefined\<close>.  The macro
  fields are per-serving values.
\<close>

record food_item =
  item_id :: jsval
  name :: jsval
  brand :: jsval
  serving :: jsval
  qty :: jsval
  calories :: jsval
  protein :: jsval
  carbs :: jsval
  fat :: jsval
  source :: jsval
  fdcId :: jsval

definition no_item :: food_item where
  "no_item = \<lparr>item_id = Undefined, name = Undefined, brand = Undefined, serving = Undefined,
     qty = Undefined, calories = Undefined, protein = Undefined, carbs = Undefined,
     fat = Undefined, source = Undefined, fdcId = Undefined\<rparr>"

text \<open>\<open>a ?? b\<close>: the left operand unless it is \<open>null\<close> or \<open>undefined\<close>.\<close>

definition nullish :: "jsval \<Rightarrow> bool" where
  "nullish v = (v = Undefined \<or> v = Null)"

definition coalesce :: "jsval \<Rightarrow> jsval \<Rightarrow> jsval" where
  "coalesce a b = (if nullish a then b else a)"

text \<open>
  \<open>normalizeFoodItem(it)\<close>.  The argument may itself be \<open>undefined\<close> or \<open>null\<close>
  (\<open>None\<close>): then \<open>it?.f\<close> is \<open>undefined\<close> for every field and the spread \<open>...it\<close> adds nothing.
\<close>

definition normalizeFoodItem :: "food_item option \<Rightarrow> food_item" where
  "normalizeFoodItem it =
     (let obj = (case it of None \<Rightarrow> no_item | Some r \<Rightarrow> r);
          q = (if qty obj = Undefined \<or> qty obj = Null \<or> qty obj = Str [] then 1
               else clamp (qty obj) 0 100)
      in obj\<lparr>qty := Num (Fin q),
           calories := coalesce (calories obj) (Str []),
           protein := coalesce (protein obj) (Str []),
           carbs := coalesce (carbs obj) (Str []),
           fat := coalesce (fat obj) (Str [])\<rparr>)"

section \<open>Meal and day totals\<close>

record totals =
  caloriesT :: rat
  proteinT :: rat
  carbsT :: rat
  fatT :: rat

definition zero_totals :: totals where
  "zero_totals = \<lparr>caloriesT = 0, proteinT = 0, carbsT = 0, fatT = 0\<rparr>"

text \<open>A meal is \<open>{ items: [...] }\<close>; the \<open>items\<close> field may be missing.\<close>

record meal =
  items :: "food_item list option"

text \<open>\<open>meal?.items || []\<close> for a meal that may be missing.\<close>

definition itemsOf :: "meal option \<Rightarrow> food_item list" where
  "itemsOf m = (case m of None \<Rightarrow> [] | Some r \<Rightarrow> (case items r of None \<Rightarrow> [] | Some xs \<Rightarrow> xs))"

definition addItem :: "totals \<Rightarrow> food_item \<Rightarrow> totals" where
  "addItem t it =
     (let q = clamp (qty it) 0 100 in
      \<lparr>caloriesT = caloriesT t + num (calories it) * q,
       proteinT = proteinT t + num (protein it) * q,
       carbsT = carbsT t + num (carbs it) * q,
       fatT = fatT t + num (fat it) * q\<rparr>)"

definition calcMealTotals :: "meal option \<Rightarrow> totals" where
  "calcMealTotals m =
     (let its = map (\<lambda>it. normalizeFoodItem (Some it)) (itemsOf m);
          t = foldl addItem zero_totals its
      in \<lparr>caloriesT = round1 (Num (Fin (caloriesT t))),
          proteinT = round1 (Num (Fin (proteinT t))),
          carbsT = round1 (Num (Fin (carbsT t))),
          fatT = round1 (Num (Fin (fatT t)))\<rparr>)"


text \<open>
  A day holds its meals in an object keyed by meal name, kept here as an association list
  in insertion order; \<open>meals[m]\<close> is \<open>map_of ms m\<close> and reads \<open>undefined\<close> (\<open>None\<close>) for a
  name that is not there.
\<close>

definition MEALS :: "string list" where
  "MEALS = [''Breakfast'', ''Lunch'', ''Dinner'', ''Snack'']"

type_synonym meal_table = "(string \<times> meal) list"

definition emptyMeals :: meal_table where
  "emptyMeals = foldl (\<lambda>acc m. AList.update m \<lparr>items = Some []\<rparr> acc) [] MEALS"

text \<open>
  The \<open>date\<close> of a day is an ISO-8601 UTC string as written by \<open>toISOString\<close>.  The model
  keeps the instant it denotes, in milliseconds since the epoch; \<open>None\<close> is a date that is
  not there.  For instants of the years 0000 to 9999 the order of the strings, which the
  sort comparators use, is the order of the instants.
\<close>

record day =
  day_id :: jsval
  date :: "int option"
  meals :: "meal_table option"
  day_notes :: jsval
  weight :: jsval

text \<open>\<open>day?.meals || emptyMeals()\<close> for a day that may be missing.\<close>

definition mealsOf :: "day option \<Rightarrow> meal_table" where
  "mealsOf d =
     (case d of None \<Rightarrow> emptyMeals
      | Some r \<Rightarrow> (case meals r of None \<Rightarrow> emptyMeals | Some ms \<Rightarrow> ms))"

definition addMeal :: "meal_table \<Rightarrow> totals \<Rightarrow> string \<Rightarrow> totals" where
  "addMeal ms t m =
     (let mt = calcMealTotals (map_of ms m) in
      \<lparr>caloriesT = caloriesT t + num (Num (Fin (caloriesT mt))),
       proteinT = proteinT t + num (Num (Fin (proteinT mt))),
       carbsT = carbsT t + num (Num (Fin (carbsT mt))),
       fatT = fatT t + num (Num (Fin (fatT mt)))\<rparr>)"

definition calcDayTotals :: "day option \<Rightarrow> totals" where
  "calcDayTotals d =
     (let ms = mealsOf d;
          t = foldl (addMeal ms) zero_totals MEALS
      in \<lparr>caloriesT = round1 (Num (Fin (caloriesT t))),
          proteinT = round1 (Num (Fin (proteinT t))),
          carbsT = round1 (Num (Fin (carbsT t))),
          fatT = round1 (Num (Fin (fatT t)))\<rparr>)"

section \<open>Calendar days\<close>

text \<open>
  The browser's time zone is a parameter \<open>tz\<close>: the offset of local time from UTC in
  milliseconds, taken as constant (no daylight-saving change).  A calendar date, which the
  source reads as the triple \<open>getFullYear\<close>, \<open>getMonth\<close>, \<open>getDate\<close> or prints as
  \<open>YYYY-MM-DD\<close> (years of four digits), is represented by the index of the local day it
  names: two dates have the same triple exactly when they have the same index, and
  \<open>setDate(getDate() - i)\<close> moves the index back by \<open>i\<close>.
\<close>

definition msPerDay :: int where
  "msPerDay = 86400000"

definition localDay :: "int \<Rightarrow> int \<Rightarrow> int" where
  "localDay tz t = (t + tz) div msPerDay"

text \<open>A date that is not there gives an invalid \<open>Date\<close>, whose parts are \<open>NaN\<close> and equal nothing.\<close>

definition sameDayISO :: "int \<Rightarrow> int option \<Rightarrow> int option \<Rightarrow> bool" where
  "sameDayISO tz aISO bISO =
     (case (aISO, bISO) of
        (Some a, Some b) \<Rightarrow> localDay tz a = localDay tz b
      | _ \<Rightarrow> False)"


datatype error = RangeError | TypeError

text \<open>
  \<open>isoDateFromInput(dateStr)\<close>: local midnight of the day typed into the date input.
  \<open>None\<close> is an input that is no date (the cleared input): \<open>toISOString\<close> throws on it.
\<close>

definition isoDateFromInput :: "int \<Rightarrow> int option \<Rightarrow> error + int" where
  "isoDateFromInput tz dateStr =
     (case dateStr of None \<Rightarrow> Inl RangeError | Some D \<Rightarrow> Inr (D * msPerDay - tz))"

section \<open>The day collection\<close>

text \<open>
  \<open>Array.prototype.sort\<close> with a comparator: a stable insertion sort.  The comparators of
  the tracker never answer \<open>0\<close>; for two days of equal date the standard leaves the order
  to the engine, and the model fixes one.
\<close>

fun insert_by :: "('a \<Rightarrow> 'a \<Rightarrow> int) \<Rightarrow> 'a \<Rightarrow> 'a list \<Rightarrow> 'a list" where
  "insert_by c x [] = [x]"
| "insert_by c x (y # ys) = (if c x y \<le> 0 then x # y # ys else y # insert_by c x ys)"

definition js_sort :: "('a \<Rightarrow> 'a \<Rightarrow> int) \<Rightarrow> 'a list \<Rightarrow> 'a list" where
  "js_sort c xs = foldr (insert_by c) xs []"

text \<open>\<open>a.date < b.date\<close>: with a date missing the comparison is false.\<close>

definition date_lt :: "int option \<Rightarrow> int option \<Rightarrow> bool" where
  "date_lt a b = (case (a, b) of (Some x, Some y) \<Rightarrow> x < y | _ \<Rightarrow> False)"

definition newestFirst :: "day \<Rightarrow> day \<Rightarrow> int" where
  "newestFirst a b = (if date_lt (date a) (date b) then 1 else - 1)"

definition oldestFirst :: "day \<Rightarrow> day \<Rightarrow> int" where
  "oldestFirst a b = (if date_lt (date a) (date b) then - 1 else 1)"

text \<open>\<open>findIndex\<close>; \<open>None\<close> is the answer \<open>-1\<close>.\<close>

fun findIndex :: "('a \<Rightarrow> bool) \<Rightarrow> 'a list \<Rightarrow> nat option" where
  "findIndex P [] = None"
| "findIndex P (x # xs) = (if P x then Some 0 else map_option Suc (findIndex P xs))"

text \<open>The patches that the tracker hands to \<open>upsertDay\<close>: \<open>{ meals }\<close>, \<open>{ weight }\<close>, \<open>{ notes }\<close>.\<close>

datatype patch = PatchMeals meal_table | PatchWeight jsval | PatchNotes jsval

fun applyPatch :: "day \<Rightarrow> patch \<Rightarrow> day" where
  "applyPatch d (PatchMeals ms) = d\<lparr>meals := Some ms\<rparr>"
| "applyPatch d (PatchWeight w) = d\<lparr>weight := w\<rparr>"
| "applyPatch d (PatchNotes n) = d\<lparr>day_notes := n\<rparr>"

text \<open>
  \<open>upsertDay(patch)\<close> as a function of the collection; \<open>nutriDate\<close> is the selected date
  and \<open>newId\<close> the value of \<open>uid()\<close> for a day that is created.
\<close>

definition upsertDay :: "int \<Rightarrow> string \<Rightarrow> int option \<Rightarrow> patch \<Rightarrow> day list \<Rightarrow> error + day list" where
  "upsertDay tz newId nutriDate p days =
     (case isoDateFromInput tz nutriDate of
        Inl e \<Rightarrow> Inl e
      | Inr dayISO \<Rightarrow>
          (case findIndex (\<lambda>d. sameDayISO tz (date d) (Some dayISO)) days of
             None \<Rightarrow>
               Inr (js_sort newestFirst
                     (applyPatch \<lparr>day_id = Str newId, date = Some dayISO, meals = Some emptyMeals,
                                  day_notes = Str [], weight = Str []\<rparr> p # days))
           | Some idx \<Rightarrow> Inr (days[idx := applyPatch (days ! idx) p])))"

definition deleteDay :: "int option \<Rightarrow> day list \<Rightarrow> day list" where
  "deleteDay dateISO days = filter (\<lambda>d. date d \<noteq> dateISO) days"

text \<open>
  \<open>importData\<close>, for the day collection: the parsed \<open>nutritionDays\<close> replaces the collection
  when it is an array (\<open>Some\<close>), and nothing happens otherwise.
\<close>

definition importData :: "day list option \<Rightarrow> day list \<Rightarrow> day list" where
  "importData nd days = (case nd of Some ds \<Rightarrow> ds | None \<Rightarrow> days)"


section \<open>Copy-forward\<close>

text \<open>
  The most recent prior day: \<open>filter(d => new Date(d.date) < dayDate).sort(...)[0]\<close>.
\<close>

definition priorDay :: "int \<Rightarrow> day list \<Rightarrow> day option" where
  "priorDay dayDate days =
     (case js_sort newestFirst
             (filter (\<lambda>d. case date d of None \<Rightarrow> False | Some t \<Rightarrow> t < dayDate) days) of
        [] \<Rightarrow> None
      | prev # _ \<Rightarrow> Some prev)"








section \<open>Timeline and weekly averages\<close>

record timeline_entry =
  iso_date :: "int option"
  dateLabel :: string
  caloriesE :: rat
  proteinE :: rat
  carbsE :: rat
  fatE :: rat
  weightE :: jsval

text \<open>\<open>xs.slice(start)\<close>: a negative \<open>start\<close> counts from the end.\<close>

definition slice_from :: "int \<Rightarrow> 'a list \<Rightarrow> 'a list" where
  "slice_from start xs =
     (let n = int (length xs);
          k = (if start < 0 then max (n + start) 0 else min start n)
      in drop (nat k) xs)"

text \<open>
  The entry built for one day.  \<open>label\<close> is the locale's short form of the date
  (\<open>toLocaleDateString\<close> with month and day), a parameter of the model.
\<close>

definition timelineEntry :: "(int option \<Rightarrow> string) \<Rightarrow> day \<Rightarrow> timeline_entry" where
  "timelineEntry label d =
     (let t = calcDayTotals (Some d) in
      \<lparr>iso_date = date d,
       dateLabel = label (date d),
       caloriesE = caloriesT t,
       proteinE = proteinT t,
       carbsE = carbsT t,
       fatE = fatT t,
       weightE = (if weight d = Undefined \<or> weight d = Null \<or> weight d = Str [] then Null
                  else Num (Number (weight d)))\<rparr>)"

definition buildMacroTimeline :: "(int option \<Rightarrow> string) \<Rightarrow> day list \<Rightarrow> int \<Rightarrow> timeline_entry list" where
  "buildMacroTimeline label days limit =
     (let sorted = js_sort oldestFirst (filter (\<lambda>d. date d \<noteq> None) days)
      in map (timelineEntry label) (slice_from (- limit) sorted))"



section \<open>Macro extraction from a food-database record\<close>

text \<open>
  \<open>String(v)\<close>.  A finite number prints as its decimal expansion: exact for integers and
  for decimals of at most twenty fraction digits; the exponent notation that JavaScript
  uses from \<open>1e21\<close> on and below \<open>1e-6\<close> is not modelled.
\<close>

definition digit_char :: "nat \<Rightarrow> char" where
  "digit_char n = ''0123456789'' ! (n mod 10)"

fun show_nat :: "nat \<Rightarrow> string" where
  "show_nat n = (if n < 10 then [digit_char n] else show_nat (n div 10) @ [digit_char (n mod 10)])"

declare show_nat.simps [simp del]

fun frac_digits :: "nat \<Rightarrow> rat \<Rightarrow> string" where
  "frac_digits 0 r = []"
| "frac_digits (Suc k) r =
     (if r = 0 then []
      else digit_char (nat \<lfloor>r * 10\<rfloor>) # frac_digits k (r * 10 - of_int \<lfloor>r * 10\<rfloor>))"

definition number_to_string :: "jsnum \<Rightarrow> string" where
  "number_to_string n =
     (case n of
        NaN \<Rightarrow> ''NaN''
      | PInf \<Rightarrow> ''Infinity''
      | NInf \<Rightarrow> ''-Infinity''
      | Fin q \<Rightarrow>
          (let a = \<bar>q\<bar>; ip = \<lfloor>a\<rfloor>; fp = a - of_int ip in
           (if q < 0 then ''-'' else []) @ show_nat (nat ip)
           @ (if fp = 0 then [] else CHR ''.'' # frac_digits 20 fp)))"

fun String :: "jsval \<Rightarrow> string" where
  "String Undefined = ''undefined''"
| "String Null = ''null''"
| "String (Bool b) = (if b then ''true'' else ''false'')"
| "String (Num n) = number_to_string n"
| "String (Str s) = s"

text \<open>Truthiness, and \<open>a || b\<close>.\<close>

fun truthy :: "jsval \<Rightarrow> bool" where
  "truthy Undefined = False"
| "truthy Null = False"
| "truthy (Bool b) = b"
| "truthy (Num n) = (n \<noteq> NaN \<and> n \<noteq> Fin 0)"
| "truthy (Str s) = (s \<noteq> [])"

definition or_else :: "jsval \<Rightarrow> jsval \<Rightarrow> jsval" where
  "or_else a b = (if truthy a then a else b)"

text \<open>\<open>toLowerCase\<close> on the ASCII letters, and \<open>s.includes(needle)\<close>.\<close>

definition lower_char :: "char \<Rightarrow> char" where
  "lower_char c =
     (case map_of (zip ''ABCDEFGHIJKLMNOPQRSTUVWXYZ'' ''abcdefghijklmnopqrstuvwxyz'') c of
        Some l \<Rightarrow> l
      | None \<Rightarrow> c)"

definition toLowerCase :: "string \<Rightarrow> string" where
  "toLowerCase s = map lower_char s"

fun starts_with :: "string \<Rightarrow> string \<Rightarrow> bool" where
  "starts_with s [] = True"
| "starts_with [] (c # cs) = False"
| "starts_with (x # xs) (c # cs) = (x = c \<and> starts_with xs cs)"

fun str_includes :: "string \<Rightarrow> string \<Rightarrow> bool" where
  "str_includes [] needle = (needle = [])"
| "str_includes (x # xs) needle = (starts_with (x # xs) needle \<or> str_includes xs needle)"

text \<open>
  An entry of \<open>foodNutrients\<close>; a field that is not there reads as \<open>undefined\<close>.  The record
  itself is given as the list, \<open>None\<close> when \<open>foodNutrients\<close> is not an array.
\<close>

record nutrient =
  nutrientName :: jsval
  nutrientNumber :: jsval
  valueF :: jsval
  amount :: jsval

record macros =
  caloriesS :: string
  proteinS :: string
  carbsS :: string
  fatS :: string

definition nameHas :: "string \<Rightarrow> nutrient \<Rightarrow> bool" where
  "nameHas needle n = str_includes (toLowerCase (String (or_else (nutrientName n) (Str [])))) needle"

definition numberIs :: "string \<Rightarrow> nutrient \<Rightarrow> bool" where
  "numberIs k n = (String (or_else (nutrientNumber n) (Str [])) = k)"

text \<open>\<open>a || b\<close> on the results of \<open>find\<close>: an entry found is an object, hence truthy.\<close>

definition orFind :: "nutrient option \<Rightarrow> nutrient option \<Rightarrow> nutrient option" where
  "orFind a b = (case a of Some n \<Rightarrow> Some n | None \<Rightarrow> b)"

text \<open>\<open>n?.value ?? n?.amount ?? ""\<close>, then \<open>x === "" ? "" : String(x)\<close>.\<close>

definition macroString :: "nutrient option \<Rightarrow> string" where
  "macroString n =
     (let x = coalesce (coalesce (case n of None \<Rightarrow> Undefined | Some r \<Rightarrow> valueF r)
                                 (case n of None \<Rightarrow> Undefined | Some r \<Rightarrow> amount r))
                       (Str [])
      in if x = Str [] then [] else String x)"

definition extractMacrosFromFDC :: "nutrient list option \<Rightarrow> macros" where
  "extractMacrosFromFDC foodNutrients =
     (let list = (case foodNutrients of Some xs \<Rightarrow> xs | None \<Rightarrow> []);
          find = (\<lambda>needle. List.find (nameHas needle) list);
          caloriesN = orFind (find ''energy'') (List.find (numberIs ''208'') list);
          proteinN = orFind (find ''protein'') (List.find (numberIs ''203'') list);
          carbsN = orFind (find ''carbohydrate'') (List.find (numberIs ''205'') list);
          fatN = orFind (orFind (find ''total lipid'') (find ''fat'')) (List.find (numberIs ''204'') list)
      in \<lparr>caloriesS = macroString caloriesN,
          proteinS = macroString proteinN,
          carbsS = macroString carbsN,
          fatS = macroString fatN\<rparr>)"

section \<open>Notions used in the statements\<close>








text \<open>At most one day per calendar date.\<close>

fun oneDayPerDate :: "int \<Rightarrow> day list \<Rightarrow> bool" where
  "oneDayPerDate tz [] = True"
| "oneDayPerDate tz (d # ds) =
     (list_all (\<lambda>e. \<not> sameDayISO tz (date d) (date e)) ds \<and> oneDayPerDate tz ds)"

text \<open>
  The collections that the tracker builds from the empty one through its own writes:
  every add, update, removal and copy goes through \<open>upsertDay\<close>; \<open>deleteDay\<close> removes.
\<close>

inductive reachable :: "int \<Rightarrow> day list \<Rightarrow> bool" for tz :: int where
  reachable_empty: "reachable tz []"
| reachable_upsert:
    "reachable tz days \<Longrightarrow> upsertDay tz newId nutriDate p days = Inr days' \<Longrightarrow> reachable tz days'"
| reachable_delete:
    "reachable tz days \<Longrightarrow> reachable tz (deleteDay dateISO days)"

section \<open>Sample data\<close>

definition empty_day :: day where
  "empty_day = \<lparr>day_id = Null, date = Some 0, meals = Some emptyMeals, day_notes = Str [], weight = Str []\<rparr>"


section \<open>Notions for the macro extraction\<close>

text \<open>
  The entry located for a macro: the first entry whose name contains a needle, the needles
  tried in order, and otherwise the first entry with the standard number.  The string that is
  returned for it: the value, else the amount, else the empty string.
\<close>

definition located :: "string list \<Rightarrow> string \<Rightarrow> nutrient list \<Rightarrow> nutrient option" where
  "located needles k xs =
     (case List.map_filter (\<lambda>needle. List.find (nameHas needle) xs) needles of
        n # _ \<Rightarrow> Some n
      | [] \<Rightarrow> List.find (numberIs k) xs)"

definition shown :: "nutrient option \<Rightarrow> string" where
  "shown n =
     (case n of
        None \<Rightarrow> []
      | Some r \<Rightarrow>
          if \<not> nullish (valueF r) then String (valueF r)
          else if \<not> nullish (amount r) then String (amount r)
          else [])"

text \<open>Two food records.\<close>

definition apple :: "nutrient list" where
  "apple = [\<lparr>nutrientName = Undefined, nutrientNumber = Str ''208'', valueF = Num (Fin 95), amount = Undefined\<rparr>]"


definition labelled_apple :: "nutrient list" where
  "labelled_apple =
     [\<lparr>nutrientName = Str ''Protein'', nutrientNumber = Str ''203'', valueF = Num (Fin (1 / 2)), amount = Undefined\<rparr>,
      \<lparr>nutrientName = Str ''Total ENERGY (kcal)'', nutrientNumber = Str ''957'', valueF = Null, amount = Num (Fin 95)\<rparr>,
      \<lparr>nutrientName = Str ''other'', nutrientNumber = Num (Fin 208), valueF = Num (Fin 7), amount = Undefined\<rparr>]"

section \<open>Notions for the day collection\<close>

text \<open>The calendar days of the dated days of a collection, in order.\<close>

definition calendarDays :: "int \<Rightarrow> day list \<Rightarrow> int list" where
  "calendarDays tz days =
     concat (map (\<lambda>d. case date d of None \<Rightarrow> [] | Some t \<Rightarrow> [localDay tz t]) days)"

text \<open>A day on which only a weight was entered.\<close>

definition weighed_day :: "int \<Rightarrow> day" where
  "weighed_day D =
     \<lparr>day_id = Str ''a'', date = Some (D * msPerDay), meals = Some emptyMeals,
      day_notes = Str [], weight = Str ''80''\<rparr>"

section \<open>Notions for copy-forward and the timeline\<close>

text \<open>The instant of a dated day.\<close>

definition instantOf :: "day \<Rightarrow> int" where
  "instantOf d = (case date d of None \<Rightarrow> 0 | Some t \<Rightarrow> t)"








text \<open>
  A history of ten days, stored out of order; a label function; a day whose weight field
  holds text that is no number.
\<close>

definition ten_days :: "day list" where
  "ten_days = map weighed_day [3, 9, 1, 7, 5, 10, 2, 8, 6, 4]"

definition no_label :: "int option \<Rightarrow> string" where
  "no_label d = []"

definition garbled_weight_day :: day where
  "garbled_weight_day = (weighed_day 1)\<lparr>weight := Str ''abc''\<rparr>"

section \<open>Rounding and the normalizer\<close>

lemma floor_rat_numeral_divide [simp]:
  "\<lfloor>(numeral a :: rat) / numeral b\<rfloor> = numeral a div numeral b"
  by (metis floor_divide_of_int_eq of_int_numeral)

lemma floor_rat_one_divide [simp]:
  "\<lfloor>(1 :: rat) / numeral b\<rfloor> = 1 div numeral b"
  by (metis floor_divide_of_int_eq of_int_numeral of_int_1)





lemma clamp_bounds: "lo \<le> hi \<Longrightarrow> lo \<le> clamp v lo hi \<and> clamp v lo hi \<le> hi"
  by (auto simp: clamp_def split: jsnum.splits)










text \<open>
  Claim C3.  The normalizer is idempotent, and it is total: every input, the missing item
  included, is turned into a complete record, with a quantity that is a number in \<open>[0, 100]\<close>
  and four macro fields that are neither \<open>null\<close> nor \<open>undefined\<close>.
\<close>

theorem normalizeFoodItem_idempotent:
  "normalizeFoodItem (Some (normalizeFoodItem x)) = normalizeFoodItem x
   \<and> (\<exists>q. qty (normalizeFoodItem x) = Num (Fin q) \<and> 0 \<le> q \<and> q \<le> 100)
   \<and> \<not> nullish (calories (normalizeFoodItem x))
   \<and> \<not> nullish (protein (normalizeFoodItem x))
   \<and> \<not> nullish (carbs (normalizeFoodItem x))
   \<and> \<not> nullish (fat (normalizeFoodItem x))"
proof -
  have idem: "normalizeFoodItem (Some (normalizeFoodItem x)) = normalizeFoodItem x"
    by (cases x) (auto simp: normalizeFoodItem_def Let_def clamp_def coalesce_def nullish_def
        no_item_def split: jsnum.splits)
  have q: "\<exists>q. qty (normalizeFoodItem x) = Num (Fin q) \<and> 0 \<le> q \<and> q \<le> 100"
    using clamp_bounds [of 0 100]
    by (cases x) (simp_all add: normalizeFoodItem_def Let_def)
  have m: "\<not> nullish (calories (normalizeFoodItem x))" "\<not> nullish (protein (normalizeFoodItem x))"
    "\<not> nullish (carbs (normalizeFoodItem x))" "\<not> nullish (fat (normalizeFoodItem x))"
    by (simp_all add: normalizeFoodItem_def Let_def coalesce_def nullish_def)
  show ?thesis using idem q m by blast
qed




section \<open>Day totals\<close>







section \<open>Weekly averages\<close>










section \<open>Macro extraction\<close>

lemma macroString_shown: "macroString n = shown n"
  by (cases n) (auto simp: macroString_def shown_def coalesce_def Let_def nullish_def)

lemma extract_located:
  "extractMacrosFromFDC food =
     (let xs = (case food of Some l \<Rightarrow> l | None \<Rightarrow> []) in
      \<lparr>caloriesS = shown (located [''energy''] ''208'' xs),
       proteinS = shown (located [''protein''] ''203'' xs),
       carbsS = shown (located [''carbohydrate''] ''205'' xs),
       fatS = shown (located [''total lipid'', ''fat''] ''204'' xs)\<rparr>)"
  by (auto simp: extractMacrosFromFDC_def Let_def macroString_shown located_def orFind_def
      List.map_filter_simps split: option.splits)

lemma located_none:
  "\<not> list_ex (\<lambda>n. list_ex (\<lambda>needle. nameHas needle n) needles \<or> numberIs k n) xs
   \<Longrightarrow> located needles k xs = None"
proof -
  assume a: "\<not> list_ex (\<lambda>n. list_ex (\<lambda>needle. nameHas needle n) needles \<or> numberIs k n) xs"
  have "List.find (nameHas needle) xs = None" if "needle \<in> set needles" for needle
    using a that by (auto simp: find_None_iff list_ex_iff)
  then have "List.map_filter (\<lambda>needle. List.find (nameHas needle) xs) needles = []"
    by (induction needles) (simp_all add: List.map_filter_simps)
  moreover have "List.find (numberIs k) xs = None"
    using a by (auto simp: find_None_iff list_ex_iff)
  ultimately show ?thesis by (simp add: located_def)
qed

lemma located_fallback:
  "\<not> list_ex (\<lambda>n. list_ex (\<lambda>needle. nameHas needle n) needles) xs
   \<Longrightarrow> located needles k xs = List.find (numberIs k) xs"
proof -
  assume a: "\<not> list_ex (\<lambda>n. list_ex (\<lambda>needle. nameHas needle n) needles) xs"
  have "List.find (nameHas needle) xs = None" if "needle \<in> set needles" for needle
    using a that by (auto simp: find_None_iff list_ex_iff)
  then have "List.map_filter (\<lambda>needle. List.find (nameHas needle) xs) needles = []"
    by (induction needles) (simp_all add: List.map_filter_simps)
  then show ?thesis by (simp add: located_def)
qed

lemma located_by_name:
  "List.find (nameHas needle) xs = Some n \<Longrightarrow> located (needle # others) k xs = Some n"
  by (simp add: located_def List.map_filter_simps)

lemma nameHas_case:
  "toLowerCase s = toLowerCase t \<Longrightarrow>
   nameHas needle (n\<lparr>nutrientName := Str s\<rparr>) = nameHas needle (n\<lparr>nutrientName := Str t\<rparr>)"
  by (cases "s = []"; cases "t = []") (simp_all add: nameHas_def or_else_def toLowerCase_def)

lemma ex_apple: "caloriesS (extractMacrosFromFDC (Some apple)) = ''95''"
  by (simp add: extractMacrosFromFDC_def apple_def Let_def nameHas_def numberIs_def or_else_def
      toLowerCase_def orFind_def macroString_def coalesce_def nullish_def number_to_string_def
      show_nat.simps digit_char_def lower_char_def)



text \<open>
  Claim C9.  Macro extraction returns, for each macro, the string of the entry located for it:
  energy, protein, carbohydrate and fat (\<open>total lipid\<close>, then \<open>fat\<close>) are looked up by
  name, the case of the letters being ignored, and when no name matches by the standard
  numbers \<open>208\<close>, \<open>203\<close>, \<open>205\<close> and \<open>204\<close>.  A macro for which nothing is found is the empty
  string, and the record whose only entry has number \<open>208\<close> and value \<open>95\<close> gives the
  calories \<open>95\<close> as a string.
\<close>

theorem extractMacrosFromFDC_located:
  "extractMacrosFromFDC food =
     (let xs = (case food of Some l \<Rightarrow> l | None \<Rightarrow> []) in
      \<lparr>caloriesS = shown (located [''energy''] ''208'' xs),
       proteinS = shown (located [''protein''] ''203'' xs),
       carbsS = shown (located [''carbohydrate''] ''205'' xs),
       fatS = shown (located [''total lipid'', ''fat''] ''204'' xs)\<rparr>)
   \<and> (List.find (nameHas needle) xs = Some n \<longrightarrow> located (needle # others) k xs = Some n)
   \<and> (\<not> list_ex (\<lambda>n. list_ex (\<lambda>needle. nameHas needle n) needles) xs
        \<longrightarrow> located needles k xs = List.find (numberIs k) xs)
   \<and> (\<not> list_ex (\<lambda>n. list_ex (\<lambda>needle. nameHas needle n) needles \<or> numberIs k n) xs
        \<longrightarrow> shown (located needles k xs) = [])
   \<and> (toLowerCase s = toLowerCase t
        \<longrightarrow> nameHas needle (n\<lparr>nutrientName := Str s\<rparr>) = nameHas needle (n\<lparr>nutrientName := Str t\<rparr>))
   \<and> caloriesS (extractMacrosFromFDC (Some apple)) = ''95''"
proof -
  have nf: "\<not> list_ex (\<lambda>n. list_ex (\<lambda>needle. nameHas needle n) needles \<or> numberIs k n) xs
      \<Longrightarrow> shown (located needles k xs) = []"
    by (simp add: located_none shown_def)
  show ?thesis
    using extract_located [of food] located_by_name [of needle xs n others k]
      located_fallback [of needles xs k] nf nameHas_case [of s t needle n] ex_apple
    by blast
qed


theorem extractMacrosFromFDC_located_witness:
  "\<not> list_ex (\<lambda>n. list_ex (\<lambda>needle. nameHas needle n) [''energy'']) apple
   \<and> located [''energy''] ''208'' apple = List.find (numberIs ''208'') apple
   \<and> List.find (numberIs ''208'') apple = Some (hd apple)
   \<and> caloriesS (extractMacrosFromFDC (Some apple)) = ''95''
   \<and> \<not> list_ex (\<lambda>n. list_ex (\<lambda>needle. nameHas needle n) [''protein''] \<or> numberIs ''203'' n) apple
   \<and> shown (located [''protein''] ''203'' apple) = []
   \<and> List.find (nameHas ''energy'') labelled_apple = Some (labelled_apple ! 1)
   \<and> located [''energy''] ''208'' labelled_apple = Some (labelled_apple ! 1)
   \<and> shown (Some (labelled_apple ! 1)) = ''95''
   \<and> toLowerCase ''Energy'' = toLowerCase ''ENERGY''
   \<and> nameHas ''energy'' ((hd apple)\<lparr>nutrientName := Str ''Energy''\<rparr>)
      = nameHas ''energy'' ((hd apple)\<lparr>nutrientName := Str ''ENERGY''\<rparr>)"
proof -
  have h1: "\<not> list_ex (\<lambda>n. list_ex (\<lambda>needle. nameHas needle n) [''energy'']) apple"
    by (simp add: apple_def nameHas_def or_else_def toLowerCase_def)
  have h2: "\<not> list_ex (\<lambda>n. list_ex (\<lambda>needle. nameHas needle n) [''protein''] \<or> numberIs ''203'' n) apple"
    by (simp add: apple_def nameHas_def numberIs_def or_else_def toLowerCase_def)
  have h3: "List.find (nameHas ''energy'') labelled_apple = Some (labelled_apple ! 1)"
    by (simp add: labelled_apple_def nameHas_def or_else_def toLowerCase_def lower_char_def)
  have h4: "toLowerCase ''Energy'' = toLowerCase ''ENERGY''"
    by (simp add: toLowerCase_def lower_char_def)
  have f: "List.find (numberIs ''208'') apple = Some (hd apple)"
    by (simp add: apple_def numberIs_def or_else_def)
  have s1: "shown (Some (labelled_apple ! 1)) = ''95''"
    by (simp add: labelled_apple_def shown_def nullish_def number_to_string_def show_nat.simps
        digit_char_def)
  note a = extractMacrosFromFDC_located [where food = "Some apple" and needle = "''energy''" and xs = "labelled_apple"
        and n = "hd apple" and others = "[]" and k = "''208''" and needles = "[''energy'']"
        and s = "''Energy''" and t = "''ENERGY''"]
  note b = extractMacrosFromFDC_located [where food = "Some apple" and needle = "''energy''" and xs = "apple"
        and n = "hd apple" and others = "[]" and k = "''208''" and needles = "[''energy'']"
        and s = "''Energy''" and t = "''ENERGY''"]
  note c = extractMacrosFromFDC_located [where food = "Some apple" and needle = "''energy''" and xs = "apple"
        and n = "hd apple" and others = "[]" and k = "''203''" and needles = "[''protein'']"
        and s = "''Energy''" and t = "''ENERGY''"]
  have r1: "located [''energy''] ''208'' apple = List.find (numberIs ''208'') apple"
    using b h1 by blast
  have r2: "shown (located [''protein''] ''203'' apple) = []"
    using c h2 by blast
  note d = extractMacrosFromFDC_located [where food = "Some apple" and needle = "''energy''" and xs = "labelled_apple"
        and n = "labelled_apple ! 1" and others = "[]" and k = "''208''" and needles = "[''energy'']"
        and s = "''Energy''" and t = "''ENERGY''"]
  have r3: "located [''energy''] ''208'' labelled_apple = Some (labelled_apple ! 1)"
    using d h3 by blast
  have r4: "nameHas ''energy'' ((hd apple)\<lparr>nutrientName := Str ''Energy''\<rparr>)
      = nameHas ''energy'' ((hd apple)\<lparr>nutrientName := Str ''ENERGY''\<rparr>)"
    using a h4 by blast
  have r5: "caloriesS (extractMacrosFromFDC (Some apple)) = ''95''"
    using a by blast
  show ?thesis
    using h1 h2 h3 h4 f s1 r1 r2 r3 r4 r5 by blast
qed

section \<open>The upsert invariant\<close>

lemma mset_insert_by: "mset (insert_by c x ys) = add_mset x (mset ys)"
  by (induction ys) auto

lemma mset_js_sort: "mset (js_sort c xs) = mset xs"
  by (induction xs) (auto simp: js_sort_def mset_insert_by)

lemma length_js_sort: "length (js_sort c xs) = length xs"
  by (metis mset_js_sort size_mset)

lemma set_js_sort: "set (js_sort c xs) = set xs"
  by (metis mset_js_sort set_mset_mset)

lemma sameDayISO_sym: "sameDayISO tz a b = sameDayISO tz b a"
  by (auto simp: sameDayISO_def split: option.splits)

lemma sameDayISO_Some:
  "sameDayISO tz (date e) (Some t) = (localDay tz t \<in> set (calendarDays tz [e]))"
  by (auto simp: sameDayISO_def calendarDays_def split: option.splits)

lemma calendarDays_Cons:
  "calendarDays tz (d # ds) = calendarDays tz [d] @ calendarDays tz ds"
  by (simp add: calendarDays_def)

lemma set_calendarDays:
  "k \<in> set (calendarDays tz ds) \<longleftrightarrow> (\<exists>d\<in>set ds. \<exists>t. date d = Some t \<and> k = localDay tz t)"
proof (induction ds)
  case Nil
  show ?case by (simp add: calendarDays_def)
next
  case (Cons a ds)
  then show ?case
    by (cases "date a") (auto simp: calendarDays_Cons [of tz a ds] calendarDays_def [of tz "[a]"])
qed

lemma oneDayPerDate_distinct: "oneDayPerDate tz days = distinct (calendarDays tz days)"
proof (induction days)
  case Nil
  show ?case by (simp add: calendarDays_def)
next
  case (Cons d ds)
  show ?case
  proof (cases "date d")
    case None
    then show ?thesis
      using Cons by (simp add: calendarDays_def sameDayISO_def list_all_iff)
  next
    case (Some t)
    have "list_all (\<lambda>e. \<not> sameDayISO tz (date d) (date e)) ds = (localDay tz t \<notin> set (calendarDays tz ds))"
      using Some by (auto simp: list_all_iff set_calendarDays sameDayISO_def split: option.splits)
    then show ?thesis
      using Cons Some by (simp add: calendarDays_def)
  qed
qed

lemma mset_calendarDays:
  "mset xs = mset ys \<Longrightarrow> mset (calendarDays tz xs) = mset (calendarDays tz ys)"
proof -
  have "mset (calendarDays tz zs) =
      (\<Sum>d\<in>#mset zs. mset (case date d of None \<Rightarrow> [] | Some t \<Rightarrow> [localDay tz t]))" for zs
    by (induction zs) (simp_all add: calendarDays_def)
  then show "mset xs = mset ys \<Longrightarrow> mset (calendarDays tz xs) = mset (calendarDays tz ys)"
    by simp
qed

lemma oneDayPerDate_mset:
  "mset xs = mset ys \<Longrightarrow> oneDayPerDate tz xs = oneDayPerDate tz ys"
  unfolding oneDayPerDate_distinct
  by (rule mset_eq_imp_distinct_iff) (rule mset_calendarDays)

lemma findIndex_None: "findIndex P xs = None \<longleftrightarrow> (\<forall>x\<in>set xs. \<not> P x)"
  by (induction xs) auto

lemma findIndex_Some:
  "findIndex P xs = Some i \<Longrightarrow> i < length xs \<and> P (xs ! i) \<and> (\<forall>j<i. \<not> P (xs ! j))"
proof (induction xs arbitrary: i)
  case Nil
  then show ?case by simp
next
  case (Cons x xs)
  show ?case
  proof (cases "P x")
    case True
    with Cons.prems show ?thesis by simp
  next
    case False
    with Cons.prems obtain k where k: "findIndex P xs = Some k" "i = Suc k"
      by auto
    from Cons.IH [OF k(1)] False k(2) show ?thesis
      by (auto simp: nth_Cons split: nat.splits)
  qed
qed

lemma date_applyPatch: "date (applyPatch d p) = date d"
  by (cases p) simp_all

lemma map_date_update:
  "i < length days \<Longrightarrow> map date (days[i := applyPatch (days ! i) p]) = map date days"
  by (simp add: map_update date_applyPatch list_update_same_conv)

lemma calendarDays_map_date:
  "map date xs = map date ys \<Longrightarrow> calendarDays tz xs = calendarDays tz ys"
proof -
  have "calendarDays tz zs =
      concat (map (\<lambda>v. case v of None \<Rightarrow> [] | Some t \<Rightarrow> [localDay tz t]) (map date zs))" for zs
    by (simp add: calendarDays_def comp_def)
  then show "map date xs = map date ys \<Longrightarrow> calendarDays tz xs = calendarDays tz ys"
    by metis
qed

lemma oneDayPerDate_deleteDay:
  "oneDayPerDate tz days \<Longrightarrow> oneDayPerDate tz (deleteDay dateISO days)"
  by (induction days) (auto simp: deleteDay_def list_all_iff)

lemma upsertDay_cases:
  assumes "upsertDay tz newId nutriDate p days = Inr days'"
  obtains (patched) D idx where "nutriDate = Some D"
      "findIndex (\<lambda>d. sameDayISO tz (date d) (Some (D * msPerDay - tz))) days = Some idx"
      "days' = days[idx := applyPatch (days ! idx) p]"
    | (created) D where "nutriDate = Some D"
      "findIndex (\<lambda>d. sameDayISO tz (date d) (Some (D * msPerDay - tz))) days = None"
      "days' = js_sort newestFirst
          (applyPatch \<lparr>day_id = Str newId, date = Some (D * msPerDay - tz), meals = Some emptyMeals,
                       day_notes = Str [], weight = Str []\<rparr> p # days)"
  using assms
  by (auto simp: upsertDay_def isoDateFromInput_def split: option.splits)

lemma upsertDay_preserves:
  assumes inv: "oneDayPerDate tz days" and up: "upsertDay tz newId nutriDate p days = Inr days'"
  shows "oneDayPerDate tz days'"
  using up
proof (cases rule: upsertDay_cases)
  case (patched D idx)
  then have "idx < length days" by (auto dest: findIndex_Some)
  then have "map date days' = map date days"
    using patched(3) by (simp add: map_date_update)
  then show ?thesis
    using inv by (simp add: oneDayPerDate_distinct calendarDays_map_date [of days' days])
next
  case (created D)
  let ?n = "applyPatch \<lparr>day_id = Str newId, date = Some (D * msPerDay - tz), meals = Some emptyMeals,
                       day_notes = Str [], weight = Str []\<rparr> p"
  have d: "date ?n = Some (D * msPerDay - tz)" by (simp add: date_applyPatch)
  have "\<forall>e\<in>set days. \<not> sameDayISO tz (date ?n) (date e)"
    using created(2) by (simp add: findIndex_None d sameDayISO_sym [of tz "Some _"])
  then have "oneDayPerDate tz (?n # days)"
    using inv by (simp add: list_all_iff)
  moreover have "mset days' = mset (?n # days)"
    using created(3) by (simp add: mset_js_sort)
  ultimately show ?thesis
    by (simp add: oneDayPerDate_mset [of days' "?n # days"])
qed

lemma reachable_invariant: "reachable tz days \<Longrightarrow> oneDayPerDate tz days"
proof (induction rule: reachable.induct)
  case reachable_empty
  show ?case by simp
next
  case (reachable_upsert days newId nutriDate p days')
  then show ?case by (blast intro: upsertDay_preserves)
next
  case (reachable_delete days dateISO)
  then show ?case by (simp add: oneDayPerDate_deleteDay)
qed


lemma upsertDay_length:
  assumes "upsertDay tz newId (Some D) p days = Inr days'"
  shows "(list_ex (\<lambda>d. sameDayISO tz (date d) (Some (D * msPerDay - tz))) days
            \<longrightarrow> length days' = length days \<and> map date days' = map date days)
       \<and> (\<not> list_ex (\<lambda>d. sameDayISO tz (date d) (Some (D * msPerDay - tz))) days
            \<longrightarrow> length days' = Suc (length days)
              \<and> mset (map date days') = add_mset (Some (D * msPerDay - tz)) (mset (map date days)))"
  using assms
proof (cases rule: upsertDay_cases)
  case (patched D' idx)
  then have i: "idx < length days" and P: "sameDayISO tz (date (days ! idx)) (Some (D * msPerDay - tz))"
    by (auto dest: findIndex_Some)
  then have "list_ex (\<lambda>d. sameDayISO tz (date d) (Some (D * msPerDay - tz))) days"
    by (auto simp: list_ex_iff)
  then show ?thesis
    using patched(3) i by (simp add: map_date_update)
next
  case (created D')
  then have n: "\<not> list_ex (\<lambda>d. sameDayISO tz (date d) (Some (D * msPerDay - tz))) days"
    by (simp add: findIndex_None list_ex_iff)
  have "mset (map date days') = image_mset date (mset days')" by simp
  also have "\<dots> = add_mset (Some (D * msPerDay - tz)) (mset (map date days))"
    using created by (simp add: mset_js_sort date_applyPatch)
  finally show ?thesis
    using n created by (simp add: length_js_sort)
qed

text \<open>
  Claim C8, as amended.  Every collection that the tracker builds from the empty one through
  \<open>upsertDay\<close> and \<open>deleteDay\<close> holds at most one day per calendar date, where two dates are
  the same when their local calendar days are, whatever the instants.  \<open>upsertDay\<close> patches the
  day of the selected date when there is one, leaving the number of days and their dates as
  they were, and adds a day of that date only when there is none.  (\<open>importData\<close> is left out:
  it installs the imported collection as it is.)
\<close>

theorem reachable_oneDayPerDate:
  assumes "reachable tz days"
  shows "oneDayPerDate tz days
    \<and> sameDayISO tz (Some a) (Some b) = (localDay tz a = localDay tz b)
    \<and> (upsertDay tz newId (Some D) p days = Inr days' \<longrightarrow>
         oneDayPerDate tz days'
         \<and> (list_ex (\<lambda>d. sameDayISO tz (date d) (Some (D * msPerDay - tz))) days
              \<longrightarrow> length days' = length days \<and> map date days' = map date days)
         \<and> (\<not> list_ex (\<lambda>d. sameDayISO tz (date d) (Some (D * msPerDay - tz))) days
              \<longrightarrow> length days' = Suc (length days)
                \<and> mset (map date days') = add_mset (Some (D * msPerDay - tz)) (mset (map date days))))
    \<and> oneDayPerDate tz (deleteDay dateISO days)"
proof -
  have inv: "oneDayPerDate tz days"
    using assms by (rule reachable_invariant)
  have s: "sameDayISO tz (Some a) (Some b) = (localDay tz a = localDay tz b)"
    by (simp add: sameDayISO_def)
  show ?thesis
    using inv s upsertDay_preserves [OF inv, of newId "Some D" p days']
      upsertDay_length [of tz newId D p days days'] oneDayPerDate_deleteDay [OF inv, of dateISO]
    by blast
qed

theorem reachable_oneDayPerDate_witness:
  "reachable 0 [weighed_day 5]
   \<and> oneDayPerDate 0 [weighed_day 5]
   \<and> sameDayISO 0 (Some 1) (Some 2)
   \<and> upsertDay 0 ''b'' (Some 5) (PatchNotes (Str ''rest'')) [weighed_day 5]
        = Inr [(weighed_day 5)\<lparr>day_notes := Str ''rest''\<rparr>]
   \<and> list_ex (\<lambda>d. sameDayISO 0 (date d) (Some (5 * msPerDay - 0))) [weighed_day 5]
   \<and> oneDayPerDate 0 [(weighed_day 5)\<lparr>day_notes := Str ''rest''\<rparr>]
   \<and> upsertDay 0 ''a'' (Some 6) (PatchWeight (Str ''80'')) [weighed_day 5]
        = Inr [weighed_day 6, weighed_day 5]
   \<and> \<not> list_ex (\<lambda>d. sameDayISO 0 (date d) (Some (6 * msPerDay - 0))) [weighed_day 5]
   \<and> oneDayPerDate 0 [weighed_day 6, weighed_day 5]"
proof -
  have u0: "upsertDay 0 ''a'' (Some 5) (PatchWeight (Str ''80'')) [] = Inr [weighed_day 5]"
    by (simp add: upsertDay_def isoDateFromInput_def js_sort_def weighed_day_def)
  have r: "reachable 0 [weighed_day 5]"
    by (rule reachable_upsert [OF reachable_empty u0])
  have u1: "upsertDay 0 ''b'' (Some 5) (PatchNotes (Str ''rest'')) [weighed_day 5]
        = Inr [(weighed_day 5)\<lparr>day_notes := Str ''rest''\<rparr>]"
    by (simp add: upsertDay_def isoDateFromInput_def weighed_day_def sameDayISO_def)
  have u2: "upsertDay 0 ''a'' (Some 6) (PatchWeight (Str ''80'')) [weighed_day 5]
        = Inr [weighed_day 6, weighed_day 5]"
    by (simp add: upsertDay_def isoDateFromInput_def weighed_day_def sameDayISO_def localDay_def
        msPerDay_def js_sort_def newestFirst_def date_lt_def)
  have e1: "list_ex (\<lambda>d. sameDayISO 0 (date d) (Some (5 * msPerDay - 0))) [weighed_day 5]"
    by (simp add: weighed_day_def sameDayISO_def)
  have e2: "\<not> list_ex (\<lambda>d. sameDayISO 0 (date d) (Some (6 * msPerDay - 0))) [weighed_day 5]"
    by (simp add: weighed_day_def sameDayISO_def localDay_def msPerDay_def)
  have s: "sameDayISO 0 (Some 1) (Some 2)"
    by (simp add: sameDayISO_def localDay_def msPerDay_def)
  note t1 = reachable_oneDayPerDate [OF r, where a = 1 and b = 2 and newId = "''b''" and D = 5
      and p = "PatchNotes (Str ''rest'')" and days' = "[(weighed_day 5)\<lparr>day_notes := Str ''rest''\<rparr>]"
      and dateISO = None]
  note t2 = reachable_oneDayPerDate [OF r, where a = 1 and b = 2 and newId = "''a''" and D = 6
      and p = "PatchWeight (Str ''80'')" and days' = "[weighed_day 6, weighed_day 5]"
      and dateISO = None]
  have i0: "oneDayPerDate 0 [weighed_day 5]" using t1 by blast
  have i1: "oneDayPerDate 0 [(weighed_day 5)\<lparr>day_notes := Str ''rest''\<rparr>]" using t1 u1 by blast
  have i2: "oneDayPerDate 0 [weighed_day 6, weighed_day 5]" using t2 u2 by blast
  show ?thesis
    using r s u1 u2 e1 e2 i0 i1 i2 by blast
qed

text \<open>
  Importing a file that lists the same date twice gives a collection with two days of that date.
\<close>

theorem importData_duplicates_counterexample:
  "oneDayPerDate 0 [] \<and> \<not> oneDayPerDate 0 (importData (Some [empty_day, empty_day]) [])"
  by (simp add: importData_def empty_day_def sameDayISO_def)

section \<open>Sorting, the prior day and copy-forward\<close>

lemma set_insert_by: "set (insert_by c x ys) = insert x (set ys)"
  by (metis mset_insert_by set_mset_add_mset_insert set_mset_mset)

lemma sorted_insert_by:
  assumes "\<And>y. y \<in> set ys \<Longrightarrow> (c x y \<le> 0 \<longrightarrow> key x \<le> key y) \<and> (\<not> c x y \<le> 0 \<longrightarrow> key y \<le> key x)"
    and "sorted (map key ys)"
  shows "sorted (map key (insert_by c x ys))"
  using assms
proof (induction ys)
  case Nil
  show ?case by simp
next
  case (Cons y ys)
  show ?case
  proof (cases "c x y \<le> 0")
    case True
    then have "key x \<le> key y" using Cons.prems(1) by simp
    then show ?thesis using True Cons.prems(2) by auto
  next
    case False
    then have "key y \<le> key x" using Cons.prems(1) by simp
    moreover have "sorted (map key (insert_by c x ys))"
      using Cons.IH Cons.prems by simp
    ultimately show ?thesis
      using False Cons.prems(2) by (auto simp: set_insert_by)
  qed
qed

lemma sorted_js_sort:
  fixes key :: "'a \<Rightarrow> 'k::linorder"
  assumes "\<And>x y. x \<in> set xs \<Longrightarrow> y \<in> set xs \<Longrightarrow>
      (c x y \<le> 0 \<longrightarrow> key x \<le> key y) \<and> (\<not> c x y \<le> 0 \<longrightarrow> key y \<le> key x)"
  shows "sorted (map key (js_sort c xs))"
  using assms
proof (induction xs)
  case Nil
  show ?case by (simp add: js_sort_def)
next
  case (Cons x xs)
  have IH: "sorted (map key (js_sort c xs))"
    using Cons by simp
  have "js_sort c (x # xs) = insert_by c x (js_sort c xs)"
    by (simp add: js_sort_def)
  moreover have "sorted (map key (insert_by c x (js_sort c xs)))"
    using Cons.prems by (intro sorted_insert_by [OF _ IH]) (simp add: set_js_sort)
  ultimately show ?case by simp
qed


lemma sorted_oldestFirst:
  assumes "\<And>d. d \<in> set xs \<Longrightarrow> date d \<noteq> None"
  shows "sorted (map instantOf (js_sort oldestFirst xs))"
proof (rule sorted_js_sort)
  fix x y assume "x \<in> set xs" "y \<in> set xs"
  then obtain a b where "date x = Some a" "date y = Some b"
    using assms by blast
  then show "(oldestFirst x y \<le> 0 \<longrightarrow> instantOf x \<le> instantOf y) \<and>
      (\<not> oldestFirst x y \<le> 0 \<longrightarrow> instantOf y \<le> instantOf x)"
    by (simp add: oldestFirst_def date_lt_def instantOf_def)
qed


lemma priorDay_None:
  "priorDay dayDate days = None \<longleftrightarrow> (\<forall>d\<in>set days. \<forall>t. date d = Some t \<longrightarrow> \<not> t < dayDate)"
proof -
  let ?f = "filter (\<lambda>d. case date d of None \<Rightarrow> False | Some t \<Rightarrow> t < dayDate) days"
  have "priorDay dayDate days = None \<longleftrightarrow> js_sort newestFirst ?f = []"
    by (simp add: priorDay_def split: list.splits)
  also have "\<dots> \<longleftrightarrow> ?f = []"
    by (metis length_js_sort length_0_conv)
  also have "\<dots> \<longleftrightarrow> (\<forall>d\<in>set days. \<forall>t. date d = Some t \<longrightarrow> \<not> t < dayDate)"
    by (auto simp: filter_empty_conv split: option.splits)
  finally show ?thesis .
qed






























section \<open>The macro timeline\<close>

lemma slice_from_last:
  "1 \<le> limit \<Longrightarrow> slice_from (- limit) xs = drop (length xs - nat limit) xs"
  by (simp add: slice_from_def Let_def nat_diff_distrib' max_def)

lemma instantOf_dated: "date d \<noteq> None \<Longrightarrow> date d = Some (instantOf d)"
  by (auto simp: instantOf_def)

lemma map_date_dated:
  "(\<And>d. d \<in> set ds \<Longrightarrow> date d \<noteq> None) \<Longrightarrow> map date ds = map Some (map instantOf ds)"
  by (induction ds) (simp_all add: instantOf_dated)

lemma iso_date_entry: "iso_date (timelineEntry label d) = date d"
  by (simp add: timelineEntry_def Let_def)

lemma localDay_mono: "a \<le> b \<Longrightarrow> localDay tz a \<le> localDay tz b"
  by (simp add: localDay_def msPerDay_def zdiv_mono1)

lemma sorted_localDay:
  "sorted (map instantOf ds) \<Longrightarrow> sorted (map (\<lambda>d. localDay tz (instantOf d)) ds)"
  by (induction ds) (auto simp: localDay_mono)

lemma timeline_sorted_days:
  fixes days
  defines "ds \<equiv> js_sort oldestFirst (filter (\<lambda>d. date d \<noteq> None) days)"
  shows "mset ds = mset (filter (\<lambda>d. date d \<noteq> None) days)"
    and "sorted (map instantOf ds)"
    and "map instantOf ds = sort (map instantOf (filter (\<lambda>d. date d \<noteq> None) days))"
    and "\<And>d. d \<in> set ds \<Longrightarrow> date d \<noteq> None"
proof -
  show m: "mset ds = mset (filter (\<lambda>d. date d \<noteq> None) days)"
    by (simp add: ds_def mset_js_sort)
  show s: "sorted (map instantOf ds)"
    unfolding ds_def by (rule sorted_oldestFirst) simp
  have "mset (map instantOf ds) = mset (map instantOf (filter (\<lambda>d. date d \<noteq> None) days))"
    using m by (metis mset_map)
  then show "map instantOf ds = sort (map instantOf (filter (\<lambda>d. date d \<noteq> None) days))"
    using s by (metis properties_for_sort)
  show "\<And>d. d \<in> set ds \<Longrightarrow> date d \<noteq> None"
    by (simp add: ds_def set_js_sort)
qed

text \<open>
  Claim C7, as amended.  For a range limit of at least \<open>1\<close>, the macro timeline is the list of
  entries of the trailing \<open>limit\<close> days of the dated days sorted by ascending date (by instant,
  hence also by calendar day): each entry carries the date, its label, the day totals and the
  weight, which is \<open>null\<close> when the weight is unset (\<open>undefined\<close>, \<open>null\<close> or empty) and
  \<open>Number(weight)\<close> otherwise, so \<open>NaN\<close> for text that is no number.  On a history of ten days
  and a limit of \<open>7\<close> these are the seven latest days in ascending order.
\<close>

theorem buildMacroTimeline_trailing:
  assumes "1 \<le> limit"
  shows "\<exists>ds. mset ds = mset (filter (\<lambda>d. date d \<noteq> None) days)
      \<and> sorted (map instantOf ds)
      \<and> sorted (map (\<lambda>d. localDay tz (instantOf d)) ds)
      \<and> buildMacroTimeline label days limit = map (timelineEntry label) (drop (length ds - nat limit) ds)
      \<and> map iso_date (buildMacroTimeline label days limit)
          = map Some (drop (length ds - nat limit)
                        (sort (map instantOf (filter (\<lambda>d. date d \<noteq> None) days))))
      \<and> length (buildMacroTimeline label days limit) = min (nat limit) (length ds)
      \<and> timelineEntry label d =
          \<lparr>iso_date = date d, dateLabel = label (date d),
           caloriesE = caloriesT (calcDayTotals (Some d)),
           proteinE = proteinT (calcDayTotals (Some d)),
           carbsE = carbsT (calcDayTotals (Some d)),
           fatE = fatT (calcDayTotals (Some d)),
           weightE = (if weight d = Undefined \<or> weight d = Null \<or> weight d = Str [] then Null
                      else Num (Number (weight d)))\<rparr>"
proof -
  define ds where "ds = js_sort oldestFirst (filter (\<lambda>d. date d \<noteq> None) days)"
  note f = timeline_sorted_days [where days = days, folded ds_def]
  have b: "buildMacroTimeline label days limit = map (timelineEntry label) (drop (length ds - nat limit) ds)"
    using assms by (simp add: buildMacroTimeline_def Let_def ds_def slice_from_last)
  have "map iso_date (buildMacroTimeline label days limit) = map date (drop (length ds - nat limit) ds)"
    by (simp add: b iso_date_entry comp_def)
  also have "\<dots> = drop (length ds - nat limit) (map date ds)"
    by (simp add: drop_map)
  also have "map date ds = map Some (map instantOf ds)"
    by (rule map_date_dated) (rule f(4))
  also have "map instantOf ds = sort (map instantOf (filter (\<lambda>d. date d \<noteq> None) days))"
    by (rule f(3))
  finally have i: "map iso_date (buildMacroTimeline label days limit)
          = map Some (drop (length ds - nat limit)
                        (sort (map instantOf (filter (\<lambda>d. date d \<noteq> None) days))))"
    by (simp add: drop_map)
  have l: "length (buildMacroTimeline label days limit) = min (nat limit) (length ds)"
    by (simp add: b)
  have e: "timelineEntry label d =
          \<lparr>iso_date = date d, dateLabel = label (date d),
           caloriesE = caloriesT (calcDayTotals (Some d)),
           proteinE = proteinT (calcDayTotals (Some d)),
           carbsE = carbsT (calcDayTotals (Some d)),
           fatE = fatT (calcDayTotals (Some d)),
           weightE = (if weight d = Undefined \<or> weight d = Null \<or> weight d = Str [] then Null
                      else Num (Number (weight d)))\<rparr>"
    by (simp add: timelineEntry_def Let_def)
  show ?thesis
    by (intro exI [of _ ds] conjI f(1) f(2) sorted_localDay [OF f(2)] b i l e)
qed

lemma ten_days_dated: "filter (\<lambda>d. date d \<noteq> None) ten_days = ten_days"
  by (simp add: ten_days_def weighed_day_def)

lemma ten_days_instants:
  "map instantOf ten_days = [259200000, 777600000, 86400000, 604800000, 432000000, 864000000,
     172800000, 691200000, 518400000, 345600000]"
  by (simp add: ten_days_def weighed_day_def instantOf_def msPerDay_def)

lemma ten_days_sorted:
  "sort (map instantOf (filter (\<lambda>d. date d \<noteq> None) ten_days)) =
     [86400000, 172800000, 259200000, 345600000, 432000000, 518400000, 604800000, 691200000,
      777600000, 864000000]"
  unfolding ten_days_dated ten_days_instants by simp

text \<open>
  A weight that is no number comes out as \<open>NaN\<close>, not as \<open>null\<close>; and with the limit \<open>0\<close> the
  slice \<open>slice(-0)\<close> keeps every entry.
\<close>

theorem buildMacroTimeline_weight_counterexample:
  "weight garbled_weight_day = Str ''abc''
   \<and> Number (Str ''abc'') = NaN
   \<and> map weightE (buildMacroTimeline no_label [garbled_weight_day] 7) = [Num NaN]
   \<and> Num NaN \<noteq> Null
   \<and> length (buildMacroTimeline no_label [garbled_weight_day] 0) = 1"
proof -
  have n: "str_to_number ''abc'' = NaN"
    by (simp add: str_to_number_def trim_def is_ws_def parse_nondecimal_def
      parse_unsigned_def parse_decimal_def is_digit_def)
  have w: "weight garbled_weight_day = Str ''abc''" "date garbled_weight_day \<noteq> None"
    by (simp_all add: garbled_weight_day_def weighed_day_def)
  have s: "js_sort oldestFirst [garbled_weight_day] = [garbled_weight_day]"
    by (simp add: js_sort_def)
  have e: "weightE (timelineEntry no_label garbled_weight_day) = Num NaN"
    by (simp add: timelineEntry_def Let_def w n)
  show ?thesis
    by (simp add: buildMacroTimeline_def Let_def w s slice_from_def e n)
qed

theorem buildMacroTimeline_trailing_witness:
  "(1 :: int) \<le> 7 \<and> length ten_days = 10
   \<and> map iso_date (buildMacroTimeline no_label ten_days 7)
       = map Some [345600000, 432000000, 518400000, 604800000, 691200000, 777600000, 864000000]
   \<and> length (buildMacroTimeline no_label ten_days 7) = 7"
proof -
  have h: "(1 :: int) \<le> 7" by simp
  obtain ds where ds: "mset ds = mset (filter (\<lambda>d. date d \<noteq> None) ten_days)"
    and i: "map iso_date (buildMacroTimeline no_label ten_days 7)
          = map Some (drop (length ds - nat 7)
                        (sort (map instantOf (filter (\<lambda>d. date d \<noteq> None) ten_days))))"
    and l: "length (buildMacroTimeline no_label ten_days 7) = min (nat 7) (length ds)"
    using buildMacroTimeline_trailing [OF h, where days = ten_days and tz = 0 and label = no_label
        and d = garbled_weight_day]
    by blast
  have t: "length ten_days = 10" by (simp add: ten_days_def)
  have "length ds = length (filter (\<lambda>d. date d \<noteq> None) ten_days)"
    using ds by (metis size_mset)
  then have n: "length ds = 10"
    by (simp only: ten_days_dated t)
  have i': "map iso_date (buildMacroTimeline no_label ten_days 7)
       = map Some [345600000, 432000000, 518400000, 604800000, 691200000, 777600000, 864000000]"
    unfolding i n ten_days_sorted by simp
  have l': "length (buildMacroTimeline no_label ten_days 7) = 7"
    unfolding l n by simp
  show ?thesis using h t i' l' by blast
qed

end
